theory Spec2Isabelle
  imports Complex_Main "HOL-Library.Sublist"
begin

section \<open>The chart index and its diff\<close>

text \<open>
  \<^verbatim>\<open>type ChartVersion struct { Version string `json:"version"` }\<close> and
  \<^verbatim>\<open>type ChartData map[string][]ChartVersion\<close>. A Go map is a finite partial
  function; a slice that is only read and appended to is a list, the nil slice being
  the empty list.
\<close>

record ChartVersion =
  Version :: string

type_synonym ChartData = "string \<rightharpoonup> ChartVersion list"

type_synonym Diff = "string \<rightharpoonup> string list"

text \<open>
  \<^verbatim>\<open>for k, v := range m\<close> visits every key of the map once, in an order the
  language leaves open. The order is a parameter of each loop over a map: a list
  that enumerates the keys.
\<close>

definition range_order :: "'k list \<Rightarrow> ('k \<rightharpoonup> 'v) \<Rightarrow> bool" where
  "range_order ks m = (distinct ks \<and> set ks = dom m)"

text \<open>
  Lines 38 to 43 of \<^verbatim>\<open>compareCharts\<close>: the set of the version strings of
  \<^verbatim>\<open>data2[chart]\<close>, empty when the chart is not a key of \<^verbatim>\<open>data2\<close>.
\<close>

definition versionSet2 :: "ChartData \<Rightarrow> string \<Rightarrow> string set" where
  "versionSet2 data2 chart =
     (case data2 chart of
        None \<Rightarrow> {}
      | Some versions2 \<Rightarrow> fold (\<lambda>v s. insert (Version v) s) versions2 {})"

text \<open>
  \<^verbatim>\<open>append(diff[chart], x)\<close>: reading a key the map does not hold gives the nil
  slice.
\<close>

definition append_entry :: "string list option \<Rightarrow> string \<Rightarrow> string list" where
  "append_entry entry x = (case entry of None \<Rightarrow> [x] | Some xs \<Rightarrow> xs @ [x])"

text \<open>Lines 44 to 48: the loop over the versions of one chart of \<^verbatim>\<open>data1\<close>.\<close>

definition collect_missing ::
  "string \<Rightarrow> string set \<Rightarrow> ChartVersion list \<Rightarrow> Diff \<Rightarrow> Diff" where
  "collect_missing chart vset versions1 diff =
     fold (\<lambda>v d. if Version v \<in> vset then d
                  else d(chart \<mapsto> append_entry (d chart) (Version v)))
       versions1 diff"

text \<open>Lines 35 to 51: the loop over the charts of \<^verbatim>\<open>data1\<close>, in the order given.\<close>

definition compareCharts :: "string list \<Rightarrow> ChartData \<Rightarrow> ChartData \<Rightarrow> Diff" where
  "compareCharts order data1 data2 =
     fold (\<lambda>chart diff.
             case data1 chart of
               None \<Rightarrow> diff
             | Some versions1 \<Rightarrow>
                 collect_missing chart (versionSet2 data2 chart) versions1 diff)
       order Map.empty"

text \<open>
  The version strings of an entry that the destination lacks, in the entry's order:
  what the proofs below show the diff to hold for each chart.
\<close>

definition missing_versions :: "ChartData \<Rightarrow> string \<Rightarrow> ChartVersion list \<Rightarrow> string list" where
  "missing_versions data2 chart versions1 =
     filter (\<lambda>x. x \<notin> versionSet2 data2 chart) (map Version versions1)"

section \<open>JSON documents and the decoders of \<^verbatim>\<open>encoding/json\<close>\<close>

text \<open>
  The bytes of a response body are not parsed here. A JSON document is its syntax
  tree: strings and keys are held unquoted, a number is the rational value of its
  literal, an object keeps its members in the order written, repeated keys
  included.
\<close>

datatype json =
    JNull
  | JBool bool
  | JNumber rat
  | JString string
  | JArray "json list"
  | JObject "(string \<times> json) list"

text \<open>Go's \<^verbatim>\<open>error\<close> values, by where they come from.\<close>

datatype err =
    NetError string
  | UrlError string
  | ReadError string
  | SyntaxError string
  | TypeError string

text \<open>
  How deep the arrays and objects of a document are nested. The decoder's scanner
  keeps one parse state per open array or object and refuses the document when
  there are more than 10000 of them (\<^verbatim>\<open>maxNestingDepth\<close>).
\<close>

fun depth :: "json \<Rightarrow> nat" where
  "depth JNull = 0"
| "depth (JBool b) = 0"
| "depth (JNumber x) = 0"
| "depth (JString s) = 0"
| "depth (JArray xs) = Suc (fold max (map depth xs) 0)"
| "depth (JObject members) = Suc (fold max (map (\<lambda>m. depth (snd m)) members) 0)"

text \<open>
  A number decoded into \<^verbatim>\<open>interface{}\<close> becomes a \<^verbatim>\<open>float64\<close> through
  \<^verbatim>\<open>strconv.ParseFloat\<close>, which fails when the literal rounds to infinity: from
  \<open>2 ^ 1024 - 2 ^ 970\<close> on in absolute value (the largest \<^verbatim>\<open>float64\<close> plus half a
  unit in its last place). The decoder then reports an \<^verbatim>\<open>UnmarshalTypeError\<close>,
  at whatever depth of the document the number stands. A literal too small for a
  \<^verbatim>\<open>float64\<close> rounds to zero and is no error.
\<close>

definition overflows :: "rat \<Rightarrow> bool" where
  "overflows x = (2 ^ 1024 - 2 ^ 970 \<le> \<bar>x\<bar>)"

fun overflowing :: "json \<Rightarrow> bool" where
  "overflowing JNull = False"
| "overflowing (JBool b) = False"
| "overflowing (JNumber x) = overflows x"
| "overflowing (JString s) = False"
| "overflowing (JArray xs) = list_ex overflowing xs"
| "overflowing (JObject members) = list_ex (\<lambda>m. overflowing (snd m)) members"

text \<open>
  \<^verbatim>\<open>var data map[string]interface{}\<close> followed by \<^verbatim>\<open>Decode(&data)\<close>, once
  the scanner has accepted the document: \<^verbatim>\<open>null\<close> leaves the map nil and is no
  error; an object fills the map (the last of repeated keys stays) and is an error
  when a number anywhere in it overflows; any other document is an
  \<^verbatim>\<open>UnmarshalTypeError\<close>. Reading a nil map finds no key, as reading an empty
  one.
\<close>

fun decode_object :: "json \<Rightarrow> err + (string \<rightharpoonup> json)" where
  "decode_object JNull = Inr Map.empty"
| "decode_object (JObject members) =
     (if overflowing (JObject members) then Inl (TypeError ''number'')
      else Inr (map_of (rev members)))"
| "decode_object (JBool b) = Inl (TypeError ''bool'')"
| "decode_object (JNumber n) = Inl (TypeError ''number'')"
| "decode_object (JString s) = Inl (TypeError ''string'')"
| "decode_object (JArray xs) = Inl (TypeError ''array'')"

text \<open>
  A struct field is matched by its \<^verbatim>\<open>json:"version"\<close> name, letter case
  ignored; the long s (the bytes C5 BF) folds to the letter s.
\<close>

definition lower_char :: "char \<Rightarrow> char" where
  "lower_char c =
     (case map_of (zip ''ABCDEFGHIJKLMNOPQRSTUVWXYZ'' ''abcdefghijklmnopqrstuvwxyz'') c of
        None \<Rightarrow> c
      | Some l \<Rightarrow> l)"

fun fold_key :: "string \<Rightarrow> string" where
  "fold_key [] = []"
| "fold_key [c] = [lower_char c]"
| "fold_key (c # d # cs) =
     (if c = CHR 0xC5 \<and> d = CHR 0xBF then CHR ''s'' # fold_key cs
      else lower_char c # fold_key (d # cs))"

definition is_version_key :: "string \<Rightarrow> bool" where
  "is_version_key k = (fold_key k = ''version'')"

text \<open>
  The members of one version object, in order: a string sets \<^verbatim>\<open>Version\<close>,
  \<^verbatim>\<open>null\<close> leaves it, any other value is a type error; members of other names are
  skipped.
\<close>

fun decode_fields :: "(string \<times> json) list \<Rightarrow> ChartVersion \<Rightarrow> err + ChartVersion" where
  "decode_fields [] v = Inr v"
| "decode_fields ((k, j) # rest) v =
     (if is_version_key k then
        (case j of
           JString s \<Rightarrow> decode_fields rest (v\<lparr>Version := s\<rparr>)
         | JNull \<Rightarrow> decode_fields rest v
         | JBool b \<Rightarrow> Inl (TypeError ''bool'')
         | JNumber n \<Rightarrow> Inl (TypeError ''number'')
         | JArray xs \<Rightarrow> Inl (TypeError ''array'')
         | JObject ms \<Rightarrow> Inl (TypeError ''object''))
      else decode_fields rest v)"

fun decode_ChartVersion :: "json \<Rightarrow> err + ChartVersion" where
  "decode_ChartVersion (JObject members) = decode_fields members \<lparr>Version = []\<rparr>"
| "decode_ChartVersion JNull = Inr \<lparr>Version = []\<rparr>"
| "decode_ChartVersion (JBool b) = Inl (TypeError ''bool'')"
| "decode_ChartVersion (JNumber n) = Inl (TypeError ''number'')"
| "decode_ChartVersion (JString s) = Inl (TypeError ''string'')"
| "decode_ChartVersion (JArray xs) = Inl (TypeError ''array'')"

fun decode_each :: "('a \<Rightarrow> err + 'b) \<Rightarrow> 'a list \<Rightarrow> err + 'b list" where
  "decode_each f [] = Inr []"
| "decode_each f (x # xs) =
     (case f x of
        Inl e \<Rightarrow> Inl e
      | Inr y \<Rightarrow> (case decode_each f xs of Inl e \<Rightarrow> Inl e | Inr ys \<Rightarrow> Inr (y # ys)))"

fun decode_versions :: "json \<Rightarrow> err + ChartVersion list" where
  "decode_versions (JArray xs) = decode_each decode_ChartVersion xs"
| "decode_versions JNull = Inr []"
| "decode_versions (JBool b) = Inl (TypeError ''bool'')"
| "decode_versions (JNumber n) = Inl (TypeError ''number'')"
| "decode_versions (JString s) = Inl (TypeError ''string'')"
| "decode_versions (JObject ms) = Inl (TypeError ''object'')"

definition decode_entry :: "string \<times> json \<Rightarrow> err + (string \<times> ChartVersion list)" where
  "decode_entry m =
     (case decode_versions (snd m) of Inl e \<Rightarrow> Inl e | Inr vs \<Rightarrow> Inr (fst m, vs))"

text \<open>
  \<^verbatim>\<open>var data ChartData\<close> followed by \<^verbatim>\<open>Decode(&data)\<close>, once the scanner
  has accepted the document. No number is converted here: a number where an array,
  an object or the version string is expected is a type error whatever its size,
  and the members of a version object of other names are skipped unread.
\<close>

fun decode_ChartData :: "json \<Rightarrow> err + ChartData" where
  "decode_ChartData JNull = Inr Map.empty"
| "decode_ChartData (JObject members) =
     (case decode_each decode_entry members of
        Inl e \<Rightarrow> Inl e
      | Inr entries \<Rightarrow> Inr (map_of (rev entries)))"
| "decode_ChartData (JBool b) = Inl (TypeError ''bool'')"
| "decode_ChartData (JNumber n) = Inl (TypeError ''number'')"
| "decode_ChartData (JString s) = Inl (TypeError ''string'')"
| "decode_ChartData (JArray xs) = Inl (TypeError ''array'')"

section \<open>The network and the program's view of it\<close>

datatype verb = GET | POST

record request =
  Method :: verb
  URL :: string
  ContentType :: "string option"
  Payload :: "string option"

text \<open>
  A body on the wire is given by what its readers find in it. One \<^verbatim>\<open>Decode\<close>
  call of a JSON decoder scans the first JSON value the stream starts with (after
  white space) and stops there: \<open>first_value\<close> is that value, or the error of the
  scan when the bytes do not start with a complete JSON value or reading fails
  before the value ends; \<open>trailing\<close> holds the bytes that follow the first value,
  which the call does not examine, so that a body is a valid JSON text as a whole
  only when they are white space. \<^verbatim>\<open>io.ReadAll\<close> gives \<open>all_bytes\<close>.
\<close>

record stream =
  first_value :: "err + json"
  trailing :: string
  all_bytes :: "err + string"

text \<open>
  What the network answers to one request: a response with a status and a body; no
  response (a transport error); or the failure of the redirect policy, where the
  client returns the last response, its body already closed, together with the
  error.
\<close>

datatype reply =
    Response int stream
  | Failure err
  | RedirectFailure int err

text \<open>
  The environment of a run: the reply to the \<open>n\<close>-th request the program sends, the
  URLs \<^verbatim>\<open>http.NewRequest\<close> cannot parse, and the orders in which the three
  \<^verbatim>\<open>range\<close> loops over maps visit their keys.
\<close>

record env =
  network :: "nat \<Rightarrow> request \<Rightarrow> reply"
  bad_url :: "string \<Rightarrow> err option"
  range_data1 :: "ChartData \<Rightarrow> string list"
  range_total :: "Diff \<Rightarrow> string list"
  range_transfer :: "Diff \<Rightarrow> string list"

record body =
  ident :: nat
  content :: stream

record response =
  StatusCode :: int
  Body :: body

text \<open>The lines the program prints, with the values of their format arguments.\<close>

datatype line =
    ErrorFetchingCharts "err option" "err option"
  | FailedToFetch string string string "err option"
  | FailedToRead string string err
  | FailedToCreateRequest string string err
  | FailedToSync string string string "err option"

text \<open>
  What a run has done so far: the requests sent with their replies, the bodies
  obtained and not yet closed, and the lines printed.
\<close>

record world =
  clock :: nat
  exchanges :: "(request \<times> reply) list"
  open_bodies :: "nat list"
  stdout :: "line list"

definition world0 :: world where
  "world0 = \<lparr>clock = 0, exchanges = [], open_bodies = [], stdout = []\<rparr>"

text \<open>
  The three shapes of \<^verbatim>\<open>(resp, err)\<close> that \<^verbatim>\<open>http.Get\<close> and
  \<^verbatim>\<open>client.Do\<close> return: \<^verbatim>\<open>(resp, nil)\<close>, \<^verbatim>\<open>(nil, err)\<close>, and
  \<^verbatim>\<open>(resp, err)\<close> with the body closed.
\<close>

datatype http_result =
    Got response
  | NoResponse err
  | ClosedResponse response err

definition closed_stream :: stream where
  "closed_stream =
     \<lparr>first_value = Inl (ReadError ''read on closed response body''),
      trailing = [],
      all_bytes = Inl (ReadError ''read on closed response body'')\<rparr>"

definition NewRequest :: "env \<Rightarrow> verb \<Rightarrow> string \<Rightarrow> string option \<Rightarrow> err + request" where
  "NewRequest e m url data =
     (case bad_url e url of
        Some er \<Rightarrow> Inl er
      | None \<Rightarrow> Inr \<lparr>Method = m, URL = url, ContentType = None, Payload = data\<rparr>)"

definition client_Do :: "env \<Rightarrow> request \<Rightarrow> world \<Rightarrow> http_result \<times> world" where
  "client_Do e req w =
     (let r = network e (clock w) req;
          w' = w\<lparr>clock := Suc (clock w), exchanges := exchanges w @ [(req, r)]\<rparr>
      in case r of
           Response status s \<Rightarrow>
             (Got \<lparr>StatusCode = status, Body = \<lparr>ident = clock w, content = s\<rparr>\<rparr>,
              w'\<lparr>open_bodies := clock w # open_bodies w\<rparr>)
         | Failure er \<Rightarrow> (NoResponse er, w')
         | RedirectFailure status er \<Rightarrow>
             (ClosedResponse
                \<lparr>StatusCode = status, Body = \<lparr>ident = clock w, content = closed_stream\<rparr>\<rparr> er,
              w'))"

definition http_Get :: "env \<Rightarrow> string \<Rightarrow> world \<Rightarrow> http_result \<times> world" where
  "http_Get e url w =
     (case NewRequest e GET url None of
        Inl er \<Rightarrow> (NoResponse er, w)
      | Inr req \<Rightarrow> client_Do e req w)"

definition Close :: "body \<Rightarrow> world \<Rightarrow> world" where
  "Close b w = w\<lparr>open_bodies := removeAll (ident b) (open_bodies w)\<rparr>"

text \<open>
  What \<^verbatim>\<open>json.NewDecoder(resp.Body).Decode\<close> reads before it decodes: the first
  value of the stream, refused by the scanner when it is nested too deep.
\<close>

definition readValue :: "body \<Rightarrow> err + json" where
  "readValue b =
     (case first_value (content b) of
        Inl er \<Rightarrow> Inl er
      | Inr j \<Rightarrow>
          (if 10000 < depth j then Inl (SyntaxError ''exceeded max depth'') else Inr j))"

definition ReadAll :: "body \<Rightarrow> err + string" where
  "ReadAll b = all_bytes (content b)"

definition Println :: "line \<Rightarrow> world \<Rightarrow> world" where
  "Println l w = w\<lparr>stdout := stdout w @ [l]\<rparr>"

section \<open>\<^verbatim>\<open>fetchCharts\<close>\<close>

text \<open>
  Lines 21 to 33. The deferred \<^verbatim>\<open>resp.Body.Close()\<close> runs on both returns that
  follow it. The status of the response is not read.
\<close>

definition fetchCharts :: "env \<Rightarrow> string \<Rightarrow> world \<Rightarrow> (err + ChartData) \<times> world" where
  "fetchCharts e url w =
     (case http_Get e (url @ ''/api/charts'') w of
        (NoResponse er, w1) \<Rightarrow> (Inl er, w1)
      | (ClosedResponse resp er, w1) \<Rightarrow> (Inl er, w1)
      | (Got resp, w1) \<Rightarrow>
          (case readValue (Body resp) of
             Inl er \<Rightarrow> (Inl er, Close (Body resp) w1)
           | Inr j \<Rightarrow>
               (case decode_ChartData j of
                  Inl er \<Rightarrow> (Inl er, Close (Body resp) w1)
                | Inr data \<Rightarrow> (Inr data, Close (Body resp) w1))))"

section \<open>\<^verbatim>\<open>checkInfoEndpoint\<close>\<close>

datatype probe_error =
    RequestError err
  | UnexpectedStatus int
  | DecodeError err
  | MissingVersionKey

text \<open>Lines 109 to 130; \<open>None\<close> is the \<^verbatim>\<open>nil\<close> error of a probe that passes.\<close>

definition checkInfoEndpoint :: "env \<Rightarrow> string \<Rightarrow> world \<Rightarrow> probe_error option \<times> world" where
  "checkInfoEndpoint e u w =
     (case http_Get e u w of
        (NoResponse er, w1) \<Rightarrow> (Some (RequestError er), w1)
      | (ClosedResponse resp er, w1) \<Rightarrow> (Some (RequestError er), w1)
      | (Got resp, w1) \<Rightarrow>
          (if StatusCode resp \<noteq> 200 then
             (Some (UnexpectedStatus (StatusCode resp)), Close (Body resp) w1)
           else
             (case readValue (Body resp) of
                Inl er \<Rightarrow> (Some (DecodeError er), Close (Body resp) w1)
              | Inr j \<Rightarrow>
                  (case decode_object j of
                     Inl er \<Rightarrow> (Some (DecodeError er), Close (Body resp) w1)
                   | Inr data \<Rightarrow>
                       (case data ''version'' of
                          None \<Rightarrow> (Some MissingVersionKey, Close (Body resp) w1)
                        | Some v \<Rightarrow> (None, Close (Body resp) w1))))))"

section \<open>\<^verbatim>\<open>syncCharts\<close>\<close>

text \<open>
  The progress bar of \<^verbatim>\<open>progressbar.Default(max, description)\<close>: \<^verbatim>\<open>Add(1)\<close>
  moves the position by one while it is below the maximum.
\<close>

record progressbar =
  bar_max :: nat
  bar_pos :: nat
  bar_description :: string

definition Default :: "nat \<Rightarrow> string \<Rightarrow> progressbar" where
  "Default n d = \<lparr>bar_max = n, bar_pos = 0, bar_description = d\<rparr>"

definition Describe :: "string \<Rightarrow> progressbar \<Rightarrow> progressbar" where
  "Describe d b = b\<lparr>bar_description := d\<rparr>"

definition Add1 :: "progressbar \<Rightarrow> progressbar" where
  "Add1 b = (if bar_pos b < bar_max b then b\<lparr>bar_pos := Suc (bar_pos b)\<rparr> else b)"

text \<open>
  The variables of the transfer loop. The counters are bounded by the number of
  version strings held in memory, so they are natural numbers here.
\<close>

record sync_state =
  sys :: world
  chartsSynced :: nat
  bar :: progressbar

text \<open>
  A run either reaches the end of the function or stops in a panic (the nil pointer
  dereference of \<^verbatim>\<open>resp.Body\<close> when \<^verbatim>\<open>resp\<close> is nil).
\<close>

datatype run = Finished sync_state | Panicked sync_state

text \<open>
  Lines 73 to 104, the body of the inner loop for one chart and version. Each
  \<^verbatim>\<open>continue\<close> ends the item. After \<^verbatim>\<open>client.Do\<close>, line 104 closes
  \<^verbatim>\<open>resp.Body\<close> whatever the branch taken.
\<close>

definition transfer_item ::
  "env \<Rightarrow> string \<Rightarrow> string \<Rightarrow> string \<Rightarrow> string \<Rightarrow> sync_state \<Rightarrow> run" where
  "transfer_item e server1 server2 chart version s =
     (case http_Get e (server1 @ ''/charts/'' @ chart @ ''-'' @ version @ ''.tgz'') (sys s) of
        (NoResponse er, w1) \<Rightarrow>
          Finished (s\<lparr>sys := Println (FailedToFetch chart version server1 (Some er)) w1\<rparr>)
      | (ClosedResponse resp er, w1) \<Rightarrow>
          Finished (s\<lparr>sys := Println (FailedToFetch chart version server1 (Some er)) w1\<rparr>)
      | (Got resp, w1) \<Rightarrow>
          (if StatusCode resp \<noteq> 200 then
             Finished (s\<lparr>sys := Println (FailedToFetch chart version server1 None) w1\<rparr>)
           else
             (case ReadAll (Body resp) of
                Inl er \<Rightarrow>
                  Finished (s\<lparr>sys := Println (FailedToRead chart version er)
                                       (Close (Body resp) w1)\<rparr>)
              | Inr data \<Rightarrow>
                  (case NewRequest e POST (server2 @ ''/api/charts'') (Some data) of
                     Inl er \<Rightarrow>
                       Finished (s\<lparr>sys := Println (FailedToCreateRequest chart version er)
                                            (Close (Body resp) w1)\<rparr>)
                   | Inr req \<Rightarrow>
                       (case client_Do e (req\<lparr>ContentType := Some ''application/gzip''\<rparr>)
                               (Close (Body resp) w1) of
                          (NoResponse er, w2) \<Rightarrow>
                            Panicked
                              (s\<lparr>sys := Println (FailedToSync chart version server2 (Some er)) w2\<rparr>)
                        | (ClosedResponse resp2 er, w2) \<Rightarrow>
                            Finished
                              (s\<lparr>sys := Close (Body resp2)
                                     (Println (FailedToSync chart version server2 (Some er)) w2)\<rparr>)
                        | (Got resp2, w2) \<Rightarrow>
                            (if StatusCode resp2 \<noteq> 201 then
                               Finished
                                 (s\<lparr>sys := Close (Body resp2)
                                        (Println (FailedToSync chart version server2 None) w2)\<rparr>)
                             else
                               Finished
                                 (s\<lparr>sys := Close (Body resp2) w2,
                                    chartsSynced := Suc (chartsSynced s),
                                    bar := Add1 (Describe (chart @ ''-'' @ version) (bar s))\<rparr>)))))))"

text \<open>Line 72: the loop over the versions of one chart of the diff.\<close>

fun transfer_versions ::
  "env \<Rightarrow> string \<Rightarrow> string \<Rightarrow> string \<Rightarrow> string list \<Rightarrow> sync_state \<Rightarrow> run" where
  "transfer_versions e server1 server2 chart [] s = Finished s"
| "transfer_versions e server1 server2 chart (version # versions) s =
     (case transfer_item e server1 server2 chart version s of
        Panicked s' \<Rightarrow> Panicked s'
      | Finished s' \<Rightarrow> transfer_versions e server1 server2 chart versions s')"

text \<open>Line 71: the loop over the charts of the diff, in the order given.\<close>

fun transfer_charts ::
  "env \<Rightarrow> string \<Rightarrow> string \<Rightarrow> Diff \<Rightarrow> string list \<Rightarrow> sync_state \<Rightarrow> run" where
  "transfer_charts e server1 server2 diff [] s = Finished s"
| "transfer_charts e server1 server2 diff (chart # charts) s =
     (case diff chart of
        None \<Rightarrow> transfer_charts e server1 server2 diff charts s
      | Some versions \<Rightarrow>
          (case transfer_versions e server1 server2 chart versions s of
             Panicked s' \<Rightarrow> Panicked s'
           | Finished s' \<Rightarrow> transfer_charts e server1 server2 diff charts s'))"

text \<open>Lines 63 to 66: \<^verbatim>\<open>totalCharts\<close>.\<close>

definition totalCharts :: "string list \<Rightarrow> Diff \<Rightarrow> nat" where
  "totalCharts order diff =
     fold (\<lambda>chart total.
             case diff chart of None \<Rightarrow> total | Some versions \<Rightarrow> total + length versions)
       order 0"

text \<open>
  Lines 53 to 107. When a listing fails the function prints both errors and returns
  at line 58, before the progress bar exists.
\<close>

datatype sync_result = Aborted world | Ran run

definition syncCharts :: "env \<Rightarrow> string \<Rightarrow> string \<Rightarrow> world \<Rightarrow> sync_result" where
  "syncCharts e server1 server2 w =
     (case fetchCharts e server1 w of
        (r1, w1) \<Rightarrow>
          (case fetchCharts e server2 w1 of
             (r2, w2) \<Rightarrow>
               (case r1 of
                  Inl err1 \<Rightarrow>
                    Aborted
                      (Println (ErrorFetchingCharts (Some err1)
                                  (case r2 of Inl err2 \<Rightarrow> Some err2 | Inr d \<Rightarrow> None)) w2)
                | Inr data1 \<Rightarrow>
                    (case r2 of
                       Inl err2 \<Rightarrow>
                         Aborted (Println (ErrorFetchingCharts None (Some err2)) w2)
                     | Inr data2 \<Rightarrow>
                         (let diff = compareCharts (range_data1 e data1) data1 data2 in
                          Ran (transfer_charts e server1 server2 diff (range_transfer e diff)
                                 \<lparr>sys = w2, chartsSynced = 0,
                                  bar = Default (totalCharts (range_total e diff) diff)
                                          ''Syncing Charts''\<rparr>))))))"

section \<open>Concrete indices\<close>

text \<open>
  The indices \<^verbatim>\<open>{"app": [{"version":"1.0.0"}, {"version":"1.1.0"}]}\<close> and
  \<^verbatim>\<open>{"app": [{"version":"1.0.0"}]}\<close>; an index that lists one version twice;
  and an index whose only chart has no version.
\<close>

definition source_index :: ChartData where
  "source_index = [''app'' \<mapsto> [\<lparr>Version = ''1.0.0''\<rparr>, \<lparr>Version = ''1.1.0''\<rparr>]]"

definition destination_index :: ChartData where
  "destination_index = [''app'' \<mapsto> [\<lparr>Version = ''1.0.0''\<rparr>]]"

definition repeating_index :: ChartData where
  "repeating_index =
     [''app'' \<mapsto> [\<lparr>Version = ''2.0.0''\<rparr>, \<lparr>Version = ''1.0.0''\<rparr>, \<lparr>Version = ''2.0.0''\<rparr>]]"

definition versionless_index :: ChartData where
  "versionless_index = [''app'' \<mapsto> []]"

section \<open>Concrete servers\<close>

text \<open>
  Bodies with their text: a JSON document, and bytes that are no JSON (a chart
  archive, an error page).
\<close>

definition quoted :: "string \<Rightarrow> string" where
  "quoted s = CHR 0x22 # s @ [CHR 0x22]"

definition document :: "json \<Rightarrow> string \<Rightarrow> stream" where
  "document j text = \<lparr>first_value = Inr j, trailing = [], all_bytes = Inr text\<rparr>"

definition raw :: "string \<Rightarrow> stream" where
  "raw text =
     \<lparr>first_value = Inl (SyntaxError ''invalid character looking for beginning of value''),
      trailing = [],
      all_bytes = Inr text\<rparr>"

text \<open>A body whose first JSON value is followed by further bytes.\<close>

definition followed_by :: "stream \<Rightarrow> string \<Rightarrow> stream" where
  "followed_by s t =
     s\<lparr>trailing := t,
       all_bytes := (case all_bytes s of Inl er \<Rightarrow> Inl er | Inr bs \<Rightarrow> Inr (bs @ t))\<rparr>"

text \<open>A value inside \<open>n\<close> arrays of one element.\<close>

fun nest :: "nat \<Rightarrow> json \<Rightarrow> json" where
  "nest 0 j = j"
| "nest (Suc n) j = JArray [nest n j]"

definition nest_text :: "nat \<Rightarrow> string \<Rightarrow> string" where
  "nest_text n text = replicate n CHR ''['' @ text @ replicate n CHR '']''"

definition version_object :: "string \<Rightarrow> json" where
  "version_object v = JObject [(''version'', JString v)]"

definition version_text :: "string \<Rightarrow> string" where
  "version_text v = ''{'' @ quoted ''version'' @ '':'' @ quoted v @ ''}''"


text \<open>
  An environment whose network answers by the request alone, in which every URL
  parses and every \<^verbatim>\<open>range\<close> loop meets the one chart \<^verbatim>\<open>app\<close>.
\<close>

definition answering :: "(request \<Rightarrow> reply) \<Rightarrow> env" where
  "answering f =
     \<lparr>network = (\<lambda>n. f), bad_url = (\<lambda>u. None),
      range_data1 = (\<lambda>m. [''app'']), range_total = (\<lambda>d. [''app'']),
      range_transfer = (\<lambda>d. [''app''])\<rparr>"

text \<open>
  A source \<^verbatim>\<open>http://src\<close> that lists the versions 1.0.0, 1.1.0 and 1.2.0 of
  \<^verbatim>\<open>app\<close>, and a destination \<^verbatim>\<open>http://dst\<close>; the reply of the destination's
  listing, the replies to the archive requests and the reply to every upload are
  the parameters.
\<close>

definition three_versions :: json where
  "three_versions =
     JObject [(''app'',
       JArray [version_object ''1.0.0'', version_object ''1.1.0'', version_object ''1.2.0''])]"

definition three_versions_text :: string where
  "three_versions_text =
     ''{'' @ quoted ''app'' @ '':['' @ version_text ''1.0.0'' @ '','' @ version_text ''1.1.0''
       @ '','' @ version_text ''1.2.0'' @ '']}''"

definition serving :: "reply \<Rightarrow> (string \<Rightarrow> reply) \<Rightarrow> reply \<Rightarrow> request \<Rightarrow> reply" where
  "serving listing2 archive upload req =
     (if Method req = POST then upload
      else if URL req = ''http://src/api/charts''
        then Response 200 (document three_versions three_versions_text)
      else if URL req = ''http://dst/api/charts'' then listing2
      else archive (URL req))"

definition three_index :: ChartData where
  "three_index =
     [''app'' \<mapsto> [\<lparr>Version = ''1.0.0''\<rparr>, \<lparr>Version = ''1.1.0''\<rparr>, \<lparr>Version = ''1.2.0''\<rparr>]]"

definition empty_listing :: reply where
  "empty_listing = Response 200 (document (JObject []) ''{}'')"

definition archives :: "string \<Rightarrow> reply" where
  "archives u = Response 200 (raw ''tgz'')"

definition archives_but_one :: "string \<Rightarrow> reply" where
  "archives_but_one u =
     (if u = ''http://src/charts/app-1.1.0.tgz'' then Response 404 (raw ''not found'')
      else Response 200 (raw ''tgz''))"

definition created :: reply where
  "created =
     Response 201 (document (JObject [(''saved'', JBool True)])
                     (''{'' @ quoted ''saved'' @ '':true}''))"

section \<open>Measures of a run\<close>

text \<open>
  A completed transfer in the record of exchanges: an archive request answered 200
  whose bytes were read, directly followed by the upload of these bytes answered
  201.
\<close>

definition uploaded :: "request \<times> reply \<Rightarrow> bool" where
  "uploaded x =
     (Method (fst x) = POST \<and>
      (case snd x of
         Response st s \<Rightarrow> st = 201
       | Failure er \<Rightarrow> False
       | RedirectFailure st er \<Rightarrow> False))"

definition fetched :: "request \<times> reply \<Rightarrow> string \<Rightarrow> bool" where
  "fetched x data =
     (Method (fst x) = GET \<and>
      (case snd x of
         Response st s \<Rightarrow> st = 200 \<and> all_bytes s = Inr data
       | Failure er \<Rightarrow> False
       | RedirectFailure st er \<Rightarrow> False))"

definition fetch_then_upload :: "request \<times> reply \<Rightarrow> request \<times> reply \<Rightarrow> bool" where
  "fetch_then_upload x y =
     (case Payload (fst y) of
        None \<Rightarrow> False
      | Some data \<Rightarrow> fetched x data \<and> uploaded y)"

fun completed :: "(request \<times> reply) list \<Rightarrow> nat" where
  "completed [] = 0"
| "completed [x] = 0"
| "completed (x # y # rest) =
     (if fetch_then_upload x y then 1 else 0) + completed (y # rest)"

text \<open>The per-item failure lines among the lines printed.\<close>

fun failure_line :: "line \<Rightarrow> bool" where
  "failure_line (ErrorFetchingCharts e1 e2) = False"
| "failure_line (FailedToFetch c v s er) = True"
| "failure_line (FailedToRead c v er) = True"
| "failure_line (FailedToCreateRequest c v er) = True"
| "failure_line (FailedToSync c v s er) = True"

definition failures :: "world \<Rightarrow> nat" where
  "failures w = length (filter failure_line (stdout w))"

text \<open>The number of versions the diff holds for a chart.\<close>

definition entry_length :: "Diff \<Rightarrow> string \<Rightarrow> nat" where
  "entry_length diff chart = (case diff chart of None \<Rightarrow> 0 | Some versions \<Rightarrow> length versions)"

text \<open>
  What \<open>k\<close> items do to the loop's variables when none of them panics: \<open>d\<close> of
  them are counted as synced and add a completed transfer, the other \<open>k - d\<close>
  print one failure line each, and the bar moves with the count while it has room.
\<close>

definition progress :: "nat \<Rightarrow> sync_state \<Rightarrow> sync_state \<Rightarrow> bool" where
  "progress k s s' =
     (\<exists>d. d \<le> k \<and>
        chartsSynced s' = chartsSynced s + d \<and>
        completed (exchanges (sys s')) = completed (exchanges (sys s)) + d \<and>
        failures (sys s') + d = failures (sys s) + k \<and>
        bar_max (bar s') = bar_max (bar s) \<and>
        (bar_pos (bar s) + k \<le> bar_max (bar s) \<longrightarrow>
           bar_pos (bar s') = bar_pos (bar s) + d))"

section \<open>Properties of the diff\<close>

lemma versionSet2_fold:
  "fold (\<lambda>v s. insert (Version v) s) vs acc = acc \<union> Version ` set vs"
  by (induction vs arbitrary: acc) auto

lemma versionSet2_eq:
  "versionSet2 data2 chart =
     (case data2 chart of None \<Rightarrow> {} | Some versions2 \<Rightarrow> Version ` set versions2)"
  by (simp add: versionSet2_def versionSet2_fold split: option.splits)

lemma collect_missing_other:
  "c \<noteq> chart \<Longrightarrow> collect_missing chart vset vs d c = d c"
  unfolding collect_missing_def
  by (induction vs arbitrary: d) auto

lemma collect_missing_same:
  "collect_missing chart vset vs d chart =
     (let new = filter (\<lambda>x. x \<notin> vset) (map Version vs)
      in if new = [] then d chart
         else Some ((case d chart of None \<Rightarrow> [] | Some xs \<Rightarrow> xs) @ new))"
  unfolding collect_missing_def
proof (induction vs arbitrary: d)
  case Nil
  show ?case by simp
next
  case (Cons v vs)
  show ?case
  proof (cases "Version v \<in> vset")
    case True
    then show ?thesis using Cons.IH [of d] by simp
  next
    case False
    let ?d = "d(chart \<mapsto> append_entry (d chart) (Version v))"
    have step: "fold (\<lambda>v d. if Version v \<in> vset then d
                  else d(chart \<mapsto> append_entry (d chart) (Version v))) (v # vs) d =
                fold (\<lambda>v d. if Version v \<in> vset then d
                  else d(chart \<mapsto> append_entry (d chart) (Version v))) vs ?d"
      using False by simp
    have entry: "?d chart = Some (append_entry (d chart) (Version v))"
      by simp
    have new: "filter (\<lambda>x. x \<notin> vset) (map Version (v # vs)) =
               Version v # filter (\<lambda>x. x \<notin> vset) (map Version vs)"
      using False by simp
    have "fold (\<lambda>v d. if Version v \<in> vset then d
                  else d(chart \<mapsto> append_entry (d chart) (Version v))) (v # vs) d chart =
          Some (append_entry (d chart) (Version v) @
                filter (\<lambda>x. x \<notin> vset) (map Version vs))"
      unfolding step Cons.IH [of ?d] entry by (simp add: Let_def)
    then show ?thesis
      unfolding new by (cases "d chart") (simp_all add: append_entry_def Let_def)
  qed
qed

lemma compare_fold_other:
  "c \<notin> set ks \<Longrightarrow>
   fold (\<lambda>chart diff.
           case data1 chart of
             None \<Rightarrow> diff
           | Some versions1 \<Rightarrow>
               collect_missing chart (versionSet2 data2 chart) versions1 diff)
     ks d c = d c"
  by (induction ks arbitrary: d) (auto simp: collect_missing_other split: option.splits)

lemma compare_fold_key:
  "distinct ks \<Longrightarrow> c \<in> set ks \<Longrightarrow> d c = None \<Longrightarrow>
   fold (\<lambda>chart diff.
           case data1 chart of
             None \<Rightarrow> diff
           | Some versions1 \<Rightarrow>
               collect_missing chart (versionSet2 data2 chart) versions1 diff)
     ks d c =
   (case data1 c of
      None \<Rightarrow> None
    | Some versions1 \<Rightarrow>
        (if missing_versions data2 c versions1 = [] then None
         else Some (missing_versions data2 c versions1)))"
proof (induction ks arbitrary: d)
  case Nil
  then show ?case by simp
next
  case (Cons k ks)
  show ?case
  proof (cases "k = c")
    case True
    then have "c \<notin> set ks" using Cons.prems(1) by simp
    then show ?thesis
      using True Cons.prems(3)
      by (simp add: compare_fold_other collect_missing_same missing_versions_def Let_def
               split: option.splits)
  next
    case False
    then have in_ks: "c \<in> set ks" using Cons.prems(2) by simp
    have dist: "distinct ks" using Cons.prems(1) by simp
    show ?thesis
    proof (cases "data1 k")
      case None
      from Cons.IH [of d, OF dist in_ks Cons.prems(3)] show ?thesis using None by simp
    next
      case (Some vs)
      have "collect_missing k (versionSet2 data2 k) vs d c = None"
        using False Cons.prems(3) by (simp add: collect_missing_other)
      from Cons.IH [of "collect_missing k (versionSet2 data2 k) vs d", OF dist in_ks this] show ?thesis using Some by simp
    qed
  qed
qed

lemma compareCharts_entry:
  assumes "range_order ks data1"
  shows "compareCharts ks data1 data2 c =
     (case data1 c of
        None \<Rightarrow> None
      | Some versions1 \<Rightarrow>
          (if missing_versions data2 c versions1 = [] then None
           else Some (missing_versions data2 c versions1)))"
proof (cases "c \<in> set ks")
  case True
  then show ?thesis
    using assms unfolding compareCharts_def range_order_def
    by (simp add: compare_fold_key)
next
  case False
  then have "data1 c = None" using assms unfolding range_order_def by auto
  then show ?thesis
    using False unfolding compareCharts_def by (simp add: compare_fold_other)
qed


lemma count_list_filter:
  "count_list (filter P xs) x = (if P x then count_list xs x else 0)"
  by (induction xs) auto

lemma range_order_app:
  "m = [''app'' \<mapsto> vs] \<Longrightarrow> range_order [''app''] m"
  by (simp add: range_order_def)

text \<open>
  Claim C1. The diff of \<open>A\<close> against \<open>B\<close> holds version \<open>V\<close> under chart \<open>C\<close>
  exactly when \<open>V\<close> is the version string of a record of \<open>A\<close>'s entry for \<open>C\<close> and
  either \<open>B\<close> has no entry for \<open>C\<close> or no record of \<open>B\<close>'s entry for \<open>C\<close> has the
  version string \<open>V\<close>. This holds for every order in which the loop visits the
  charts of \<open>A\<close>.
\<close>

theorem compareCharts_membership:
  assumes "range_order ks A"
  shows "(\<exists>vs. compareCharts ks A B C = Some vs \<and> V \<in> set vs) =
         (\<exists>vs1. A C = Some vs1 \<and> V \<in> Version ` set vs1 \<and>
            (case B C of None \<Rightarrow> True | Some vs2 \<Rightarrow> V \<notin> Version ` set vs2))"
proof (cases "A C")
  case None
  then show ?thesis by (simp add: compareCharts_entry [OF assms])
next
  case (Some vs1)
  have "(\<exists>vs. compareCharts ks A B C = Some vs \<and> V \<in> set vs) =
        (V \<in> set (missing_versions B C vs1))"
    using Some by (auto simp: compareCharts_entry [OF assms])
  also have "\<dots> = (V \<in> Version ` set vs1 \<and>
            (case B C of None \<Rightarrow> True | Some vs2 \<Rightarrow> V \<notin> Version ` set vs2))"
    by (auto simp: missing_versions_def versionSet2_eq split: option.splits)
  finally show ?thesis using Some by simp
qed

theorem compareCharts_membership_witness:
  "range_order [''app''] source_index \<and>
   (\<exists>vs. compareCharts [''app''] source_index destination_index ''app'' = Some vs \<and>
         ''1.1.0'' \<in> set vs) \<and>
   \<not> (\<exists>vs. compareCharts [''app''] source_index destination_index ''app'' = Some vs \<and>
         ''1.0.0'' \<in> set vs)"
proof -
  have r: "range_order [''app''] source_index"
    by (rule range_order_app) (simp add: source_index_def)
  have "\<exists>vs. compareCharts [''app''] source_index destination_index ''app'' = Some vs \<and>
         ''1.1.0'' \<in> set vs"
    unfolding compareCharts_membership [OF r]
    by (simp add: source_index_def destination_index_def)
  moreover
  have "\<not> (\<exists>vs. compareCharts [''app''] source_index destination_index ''app'' = Some vs \<and>
         ''1.0.0'' \<in> set vs)"
    unfolding compareCharts_membership [OF r]
    by (simp add: source_index_def destination_index_def)
  ultimately show ?thesis using r by simp
qed

text \<open>
  Claim C6, as stated: against an empty index every chart of \<open>A\<close> appears in the
  diff. It fails for a chart of \<open>A\<close> whose version list is empty: the index
  \<^verbatim>\<open>{"app": []}\<close> has the chart \<^verbatim>\<open>app\<close>, its diff against the empty index has
  no chart at all.
\<close>

theorem diff_against_empty_counterexample:
  "range_order [''app''] versionless_index \<and>
   versionless_index ''app'' = Some [] \<and>
   compareCharts [''app''] versionless_index Map.empty ''app'' = None \<and>
   compareCharts [''app''] versionless_index Map.empty \<noteq> map_option (map Version) \<circ> versionless_index"
proof -
  have r: "range_order [''app''] versionless_index"
    by (rule range_order_app) (simp add: versionless_index_def)
  have v: "versionless_index ''app'' = Some []"
    by (simp add: versionless_index_def)
  have n: "compareCharts [''app''] versionless_index Map.empty ''app'' = None"
    by (simp add: compareCharts_entry [OF r] v missing_versions_def)
  have "compareCharts [''app''] versionless_index Map.empty ''app'' \<noteq>
        (map_option (map Version) \<circ> versionless_index) ''app''"
    by (simp add: n v)
  then have "compareCharts [''app''] versionless_index Map.empty \<noteq>
        map_option (map Version) \<circ> versionless_index"
    by metis
  with r v n show ?thesis by simp
qed

text \<open>
  Claim C6, amended. Against an empty index, the diff maps every chart of \<open>A\<close> whose
  version list is not empty to the version strings of all the records of that list,
  in the list's order; a chart of \<open>A\<close> whose version list is empty, and a chart that
  \<open>A\<close> does not have, are not keys of the diff.
\<close>

theorem diff_against_empty:
  assumes "range_order ks A"
  shows "compareCharts ks A Map.empty C =
         (case A C of
            None \<Rightarrow> None
          | Some vs1 \<Rightarrow> (if vs1 = [] then None else Some (map Version vs1)))"
  by (simp add: compareCharts_entry [OF assms] missing_versions_def versionSet2_eq
           split: option.splits)

theorem diff_against_empty_witness:
  "range_order [''app''] source_index \<and>
   compareCharts [''app''] source_index Map.empty ''app'' = Some [''1.0.0'', ''1.1.0''] \<and>
   compareCharts [''app''] source_index Map.empty ''other'' = None"
proof -
  have r: "range_order [''app''] source_index"
    by (rule range_order_app) (simp add: source_index_def)
  have "compareCharts [''app''] source_index Map.empty ''app'' = Some [''1.0.0'', ''1.1.0'']"
    unfolding diff_against_empty [OF r] by (simp add: source_index_def)
  moreover
  have "compareCharts [''app''] source_index Map.empty ''other'' = None"
    unfolding diff_against_empty [OF r] by (simp add: source_index_def)
  ultimately show ?thesis using r by simp
qed

text \<open>
  Claim C8. The diff never maps a chart to the empty list. A chart is a key of the
  diff exactly when the source has an entry for it with a record whose version
  string the destination's entry lacks (or the destination has no entry). So a
  source chart with an empty version list, and a source chart all of whose versions
  the destination has, are not keys of the diff.
\<close>

theorem diff_has_no_empty_entry:
  assumes "range_order ks A"
  shows "compareCharts ks A B C \<noteq> Some [] \<and>
         (C \<in> dom (compareCharts ks A B)) =
           (\<exists>vs1. A C = Some vs1 \<and>
              (\<exists>v \<in> set vs1.
                 case B C of None \<Rightarrow> True | Some vs2 \<Rightarrow> Version v \<notin> Version ` set vs2)) \<and>
         (A C = Some [] \<longrightarrow> C \<notin> dom (compareCharts ks A B)) \<and>
         (\<forall>vs1 vs2. A C = Some vs1 \<and> B C = Some vs2 \<and>
              Version ` set vs1 \<subseteq> Version ` set vs2 \<longrightarrow>
            C \<notin> dom (compareCharts ks A B))"
proof -
  have entry: "compareCharts ks A B C =
     (case A C of
        None \<Rightarrow> None
      | Some versions1 \<Rightarrow>
          (if missing_versions B C versions1 = [] then None
           else Some (missing_versions B C versions1)))"
    by (rule compareCharts_entry [OF assms])
  have nonempty: "compareCharts ks A B C \<noteq> Some []"
    unfolding entry by (simp split: option.splits)
  have key: "(C \<in> dom (compareCharts ks A B)) =
           (\<exists>vs1. A C = Some vs1 \<and>
              (\<exists>v \<in> set vs1.
                 case B C of None \<Rightarrow> True | Some vs2 \<Rightarrow> Version v \<notin> Version ` set vs2))"
    by (auto simp: dom_def entry missing_versions_def versionSet2_eq filter_empty_conv
             split: option.splits)
  have none: "A C = Some [] \<longrightarrow> C \<notin> dom (compareCharts ks A B)"
    unfolding key by simp
  have all: "\<forall>vs1 vs2. A C = Some vs1 \<and> B C = Some vs2 \<and>
              Version ` set vs1 \<subseteq> Version ` set vs2 \<longrightarrow>
            C \<notin> dom (compareCharts ks A B)"
    unfolding key by auto
  from nonempty key none all show ?thesis by blast
qed

theorem diff_has_no_empty_entry_witness:
  "range_order [''app''] destination_index \<and>
   destination_index ''app'' = Some [\<lparr>Version = ''1.0.0''\<rparr>] \<and>
   source_index ''app'' = Some [\<lparr>Version = ''1.0.0''\<rparr>, \<lparr>Version = ''1.1.0''\<rparr>] \<and>
   ''app'' \<notin> dom (compareCharts [''app''] destination_index source_index) \<and>
   compareCharts [''app''] destination_index source_index ''app'' \<noteq> Some []"
proof -
  have r: "range_order [''app''] destination_index"
    by (rule range_order_app) (simp add: destination_index_def)
  have d: "destination_index ''app'' = Some [\<lparr>Version = ''1.0.0''\<rparr>]"
    by (simp add: destination_index_def)
  have s: "source_index ''app'' = Some [\<lparr>Version = ''1.0.0''\<rparr>, \<lparr>Version = ''1.1.0''\<rparr>]"
    by (simp add: source_index_def)
  have sub: "Version ` set [\<lparr>Version = ''1.0.0''\<rparr>] \<subseteq>
             Version ` set [\<lparr>Version = ''1.0.0''\<rparr>, \<lparr>Version = ''1.1.0''\<rparr>]"
    by simp
  note fact = diff_has_no_empty_entry [OF r, of source_index "''app''"]
  from fact d s sub have "''app'' \<notin> dom (compareCharts [''app''] destination_index source_index)"
    by blast
  moreover from fact
  have "compareCharts [''app''] destination_index source_index ''app'' \<noteq> Some []"
    by blast
  ultimately show ?thesis using r d s by simp
qed

text \<open>
  Claim C9. For every chart, the diff's version strings are the version strings of
  the source entry with those the destination has removed and nothing else changed:
  they stand in the source's order, and a string the destination lacks occurs as
  often as in the source entry.
\<close>

theorem diff_keeps_order_and_multiplicity:
  assumes "range_order ks A" and "A C = Some vs1" and "compareCharts ks A B C = Some vs"
  shows "vs = filter (\<lambda>V. case B C of None \<Rightarrow> True | Some vs2 \<Rightarrow> V \<notin> Version ` set vs2)
                (map Version vs1) \<and>
         subseq vs (map Version vs1) \<and>
         (\<forall>V. count_list vs V =
               (if (case B C of None \<Rightarrow> True | Some vs2 \<Rightarrow> V \<notin> Version ` set vs2)
                then count_list (map Version vs1) V else 0))"
proof -
  let ?P = "\<lambda>V. case B C of None \<Rightarrow> True | Some vs2 \<Rightarrow> V \<notin> Version ` set vs2"
  have same: "missing_versions B C vs1 = filter ?P (map Version vs1)"
    unfolding missing_versions_def
    by (rule filter_cong) (auto simp: versionSet2_eq split: option.splits)
  have eq: "vs = filter ?P (map Version vs1)"
    using assms(3) compareCharts_entry [OF assms(1), of B C] same
    by (simp add: assms(2) split: if_splits)
  have sub: "subseq vs (map Version vs1)"
    unfolding eq by simp
  have cnt: "\<forall>V. count_list vs V = (if ?P V then count_list (map Version vs1) V else 0)"
    unfolding eq by (simp add: count_list_filter)
  from eq sub cnt show ?thesis by simp
qed

theorem diff_keeps_order_and_multiplicity_witness:
  "range_order [''app''] repeating_index \<and>
   compareCharts [''app''] repeating_index destination_index ''app'' =
     Some [''2.0.0'', ''2.0.0'']"
proof -
  have r: "range_order [''app''] repeating_index"
    by (rule range_order_app) (simp add: repeating_index_def)
  have a: "repeating_index ''app'' =
      Some [\<lparr>Version = ''2.0.0''\<rparr>, \<lparr>Version = ''1.0.0''\<rparr>, \<lparr>Version = ''2.0.0''\<rparr>]"
    by (simp add: repeating_index_def)
  obtain vs where vs: "compareCharts [''app''] repeating_index destination_index ''app'' = Some vs"
    by (simp add: compareCharts_entry [OF r] a missing_versions_def versionSet2_eq
          destination_index_def)
  from diff_keeps_order_and_multiplicity [OF r a vs]
  have "vs = [''2.0.0'', ''2.0.0'']"
    by (simp add: destination_index_def)
  with vs r show ?thesis by simp
qed


text \<open>
  The diff of an index against itself is empty, for every order of the loop.
\<close>

theorem diff_self_empty:
  assumes "range_order ks A"
  shows "compareCharts ks A A = Map.empty"
proof (rule ext)
  fix c
  show "compareCharts ks A A c = Map.empty c"
  proof (cases "A c")
    case None
    then show ?thesis by (simp add: compareCharts_entry [OF assms])
  next
    case (Some vs1)
    then have "missing_versions A c vs1 = []"
      by (auto simp: missing_versions_def versionSet2_eq filter_empty_conv)
    then show ?thesis using Some by (simp add: compareCharts_entry [OF assms])
  qed
qed

theorem diff_self_empty_witness:
  "range_order [''app''] source_index \<and>
   compareCharts [''app''] source_index source_index = Map.empty"
proof -
  have r: "range_order [''app''] source_index"
    by (rule range_order_app) (simp add: source_index_def)
  from diff_self_empty [OF r] r show ?thesis by simp
qed

text \<open>The diff of the empty index against any index is empty.\<close>

theorem diff_of_empty_source:
  "compareCharts ks Map.empty B = Map.empty"
  unfolding compareCharts_def by (induction ks) simp_all

text \<open>
  The source lists the versions 1.0.0 and 1.1.0 of \<^verbatim>\<open>app\<close>, the destination the
  version 1.0.0: the diff is \<^verbatim>\<open>{"app": ["1.1.0"]}\<close>.
\<close>

theorem diff_of_the_two_indices:
  "compareCharts [''app''] source_index destination_index = [''app'' \<mapsto> [''1.1.0'']]"
  by (simp add: compareCharts_def collect_missing_def versionSet2_def append_entry_def
        source_index_def destination_index_def)

section \<open>Properties of the probe\<close>



lemma depth_nest: "depth (nest n j) = n + depth j"
  by (induction n) simp_all









text \<open>
  Three bodies answered with status 200. A number too large for a \<^verbatim>\<open>float64\<close>
  makes the probe fail with a decode error, as the value of \<^verbatim>\<open>version\<close> and as
  the value of another member beside a good \<^verbatim>\<open>version\<close>. A value nested 10001
  deep makes it fail with the scanner's error. Bytes after the first JSON value are
  not read: the object followed by the text of an HTML page passes.
\<close>

theorem probe_rejects_overflowing_number:
  "fst (checkInfoEndpoint
          (answering (\<lambda>r. Response 200 (document (JObject [(''version'', JNumber (10 ^ 309))])
                                     (''{'' @ quoted ''version'' @ '':1e309}''))))
          ''http://src/info'' world0) = Some (DecodeError (TypeError ''number'')) \<and>
   fst (checkInfoEndpoint
          (answering (\<lambda>r. Response 200
             (document (JObject [(''version'', JString ''0.13.1''), (''x'', JNumber (10 ^ 309))])
                (''{'' @ quoted ''version'' @ '':'' @ quoted ''0.13.1'' @ '','' @ quoted ''x''
                   @ '':1e309}''))))
          ''http://src/info'' world0) = Some (DecodeError (TypeError ''number''))"
  by (simp add: document_def checkInfoEndpoint_def readValue_def http_Get_def NewRequest_def
        client_Do_def answering_def world0_def overflows_def Let_def)

theorem probe_rejects_deep_nesting:
  "fst (checkInfoEndpoint
          (answering (\<lambda>r. Response 200
             (document (JObject [(''version'', nest 10000 JNull)])
                (''{'' @ quoted ''version'' @ '':'' @ nest_text 10000 ''null'' @ ''}''))))
          ''http://src/info'' world0) = Some (DecodeError (SyntaxError ''exceeded max depth''))"
  by (simp add: document_def checkInfoEndpoint_def readValue_def http_Get_def NewRequest_def
        client_Do_def answering_def world0_def depth_nest Let_def)

theorem probe_ignores_trailing_bytes:
  "trailing (followed_by (document (version_object ''0.13.1'') (version_text ''0.13.1''))
               ''<html></html>'') = ''<html></html>'' \<and>
   fst (checkInfoEndpoint
          (answering (\<lambda>r. Response 200
             (followed_by (document (version_object ''0.13.1'') (version_text ''0.13.1''))
                ''<html></html>'')))
          ''http://src/info'' world0) = None"
  by (simp add: followed_by_def document_def version_object_def checkInfoEndpoint_def
        readValue_def http_Get_def NewRequest_def client_Do_def answering_def world0_def Let_def)

section \<open>Properties of the transfer loop\<close>

lemma completed_snoc_get:
  "Method (fst g) = GET \<Longrightarrow> completed (h @ [g]) = completed h"
  by (induction h rule: completed.induct)
     (simp_all add: fetch_then_upload_def uploaded_def split: option.splits)

lemma completed_snoc_pair:
  "Method (fst g) = GET \<Longrightarrow>
   completed (h @ [g, p]) = completed h + (if fetch_then_upload g p then 1 else 0)"
  by (induction h rule: completed.induct)
     (simp_all add: fetch_then_upload_def uploaded_def split: option.splits)

lemma progress_refl: "progress 0 s s"
  by (simp add: progress_def)

lemma progress_trans:
  assumes "progress k s s'" and "progress k' s' s''"
  shows "progress (k + k') s s''"
proof -
  from assms(1) obtain d where d: "d \<le> k"
    "chartsSynced s' = chartsSynced s + d"
    "completed (exchanges (sys s')) = completed (exchanges (sys s)) + d"
    "failures (sys s') + d = failures (sys s) + k"
    "bar_max (bar s') = bar_max (bar s)"
    "bar_pos (bar s) + k \<le> bar_max (bar s) \<longrightarrow> bar_pos (bar s') = bar_pos (bar s) + d"
    unfolding progress_def by blast
  from assms(2) obtain d' where d': "d' \<le> k'"
    "chartsSynced s'' = chartsSynced s' + d'"
    "completed (exchanges (sys s'')) = completed (exchanges (sys s')) + d'"
    "failures (sys s'') + d' = failures (sys s') + k'"
    "bar_max (bar s'') = bar_max (bar s')"
    "bar_pos (bar s') + k' \<le> bar_max (bar s') \<longrightarrow> bar_pos (bar s'') = bar_pos (bar s') + d'"
    unfolding progress_def by blast
  show ?thesis
    unfolding progress_def
  proof (intro exI [of _ "d + d'"] conjI impI)
    show "d + d' \<le> k + k'" using d(1) d'(1) by simp
    show "chartsSynced s'' = chartsSynced s + (d + d')" using d(2) d'(2) by simp
    show "completed (exchanges (sys s'')) = completed (exchanges (sys s)) + (d + d')"
      using d(3) d'(3) by simp
    show "failures (sys s'') + (d + d') = failures (sys s) + (k + k')"
      using d(4) d'(4) by simp
    show "bar_max (bar s'') = bar_max (bar s)" using d(5) d'(5) by simp
  next
    assume room: "bar_pos (bar s) + (k + k') \<le> bar_max (bar s)"
    then have "bar_pos (bar s') = bar_pos (bar s) + d" using d(6) by simp
    moreover from this room d(1) d(5)
    have "bar_pos (bar s') + k' \<le> bar_max (bar s')" by simp
    ultimately show "bar_pos (bar s'') = bar_pos (bar s) + (d + d')" using d'(6) by simp
  qed
qed

lemma transfer_item_progress:
  assumes "transfer_item e server1 server2 chart version s = Finished s'"
  shows "progress 1 s s'"
  using assms
  unfolding transfer_item_def http_Get_def NewRequest_def client_Do_def Let_def progress_def
    ReadAll_def Close_def Println_def failures_def Add1_def Describe_def
  by (auto simp: completed_snoc_get completed_snoc_pair fetch_then_upload_def uploaded_def
        fetched_def
      split: option.splits reply.splits sum.splits if_splits prod.splits http_result.splits)


lemma transfer_versions_progress:
  "transfer_versions e server1 server2 chart versions s = Finished s' \<Longrightarrow>
   progress (length versions) s s'"
proof (induction versions arbitrary: s)
  case Nil
  then show ?case by (simp add: progress_refl)
next
  case (Cons v versions)
  from Cons.prems obtain s1 where
    item: "transfer_item e server1 server2 chart v s = Finished s1" and
    rest: "transfer_versions e server1 server2 chart versions s1 = Finished s'"
    by (auto split: run.splits)
  from progress_trans [OF transfer_item_progress [OF item] Cons.IH [OF rest]]
  show ?case by simp
qed

lemma totalCharts_fold:
  "fold (\<lambda>chart total.
           case diff chart of None \<Rightarrow> total | Some versions \<Rightarrow> total + length versions)
     ks a = a + sum_list (map (entry_length diff) ks)"
  by (induction ks arbitrary: a) (auto simp: entry_length_def split: option.splits)

lemma totalCharts_sum_list:
  "totalCharts ks diff = sum_list (map (entry_length diff) ks)"
  by (simp add: totalCharts_def totalCharts_fold)

lemma totalCharts_sum:
  assumes "range_order ks diff"
  shows "totalCharts ks diff = (\<Sum>c \<in> dom diff. entry_length diff c)"
  using assms
  by (simp add: totalCharts_sum_list range_order_def sum_list_distinct_conv_sum_set)

lemma transfer_charts_progress:
  "transfer_charts e server1 server2 diff ks s = Finished s' \<Longrightarrow>
   progress (totalCharts ks diff) s s'"
proof (induction ks arbitrary: s)
  case Nil
  then show ?case by (simp add: progress_refl totalCharts_sum_list)
next
  case (Cons c ks)
  show ?case
  proof (cases "diff c")
    case None
    with Cons.prems have "transfer_charts e server1 server2 diff ks s = Finished s'"
      by simp
    from Cons.IH [OF this] show ?thesis
      using None by (simp add: totalCharts_sum_list entry_length_def)
  next
    case (Some versions)
    with Cons.prems obtain s1 where
      one: "transfer_versions e server1 server2 c versions s = Finished s1" and
      rest: "transfer_charts e server1 server2 diff ks s1 = Finished s'"
      by (auto split: run.splits)
    from progress_trans [OF transfer_versions_progress [OF one] Cons.IH [OF rest]]
    show ?thesis
      using Some by (simp add: totalCharts_sum_list entry_length_def)
  qed
qed

text \<open>
  Claim C5. The total the progress bar is created with is the sum, over the charts
  of the diff, of the number of versions the diff holds for the chart, whatever the
  orders of the two loops over the diff. When the transfer loop runs to its end, the
  bar's position equals \<^verbatim>\<open>chartsSynced\<close>, and this count is the number of
  completed transfers the loop has made: an archive request answered 200 whose
  bytes were read, followed by the upload of these bytes answered 201. Every other
  item has printed one failure line.
\<close>

theorem sync_counts:
  assumes "fetchCharts e server1 w = (Inr data1, w1)"
    and "fetchCharts e server2 w1 = (Inr data2, w2)"
    and "diff = compareCharts (range_data1 e data1) data1 data2"
    and "range_order (range_total e diff) diff"
    and "range_order (range_transfer e diff) diff"
    and "syncCharts e server1 server2 w = Ran (Finished s)"
  shows "totalCharts (range_total e diff) diff =
           (\<Sum>c \<in> dom diff. case diff c of None \<Rightarrow> 0 | Some versions \<Rightarrow> length versions) \<and>
         bar_max (bar s) = totalCharts (range_total e diff) diff \<and>
         bar_pos (bar s) = chartsSynced s \<and>
         completed (exchanges (sys s)) = completed (exchanges w2) + chartsSynced s \<and>
         chartsSynced s + (failures (sys s) - failures w2) = totalCharts (range_total e diff) diff"
proof -
  let ?n = "\<Sum>c \<in> dom diff. entry_length diff c"
  let ?s0 = "\<lparr>sys = w2, chartsSynced = 0,
              bar = Default (totalCharts (range_total e diff) diff) ''Syncing Charts''\<rparr>"
  have total: "totalCharts (range_total e diff) diff = ?n"
    by (rule totalCharts_sum [OF assms(4)])
  have total': "totalCharts (range_transfer e diff) diff = ?n"
    by (rule totalCharts_sum [OF assms(5)])
  have "transfer_charts e server1 server2 diff (range_transfer e diff) ?s0 = Finished s"
    using assms(6) by (simp add: syncCharts_def assms(1,2) assms(3) [symmetric] Let_def)
  from transfer_charts_progress [OF this]
  have "progress ?n ?s0 s" by (simp add: total')
  then obtain d where d: "d \<le> ?n"
    "chartsSynced s = d"
    "completed (exchanges (sys s)) = completed (exchanges w2) + d"
    "failures (sys s) + d = failures w2 + ?n"
    "bar_max (bar s) = ?n"
    "bar_pos (bar s) = d"
    unfolding progress_def by (auto simp: total Default_def)
  from d total show ?thesis
    by (simp add: entry_length_def [abs_def])
qed


lemmas run_defs =
  syncCharts_def fetchCharts_def readValue_def transfer_item_def http_Get_def NewRequest_def client_Do_def
  ReadAll_def Close_def Println_def Add1_def Describe_def Default_def totalCharts_def
  compareCharts_def collect_missing_def versionSet2_def append_entry_def decode_entry_def
  is_version_key_def lower_char_def
  answering_def serving_def empty_listing_def archives_def archives_but_one_def created_def
  document_def raw_def three_versions_def version_object_def world0_def Let_def

lemma is_version_key_version: "is_version_key ''version''"
  by (simp add: is_version_key_def lower_char_def)

lemma three_versions_decoded: "decode_ChartData three_versions = Inr three_index"
  by (simp add: three_versions_def version_object_def decode_entry_def
        is_version_key_version three_index_def)

lemma three_versions_depth: "depth three_versions = 3"
  by (simp add: three_versions_def version_object_def)

theorem sync_counts_witness:
  "\<exists>s. syncCharts (answering (serving empty_listing archives_but_one created))
          ''http://src'' ''http://dst'' world0 = Ran (Finished s) \<and>
       range_order [''app''] (compareCharts [''app''] three_index Map.empty) \<and>
       bar_max (bar s) = 3 \<and> bar_pos (bar s) = 2 \<and> chartsSynced s = 2 \<and>
       completed (exchanges (sys s)) = 2 \<and> failures (sys s) = 1"
proof -
  let ?e = "answering (serving empty_listing archives_but_one created)"
  define w1 where "w1 = snd (fetchCharts ?e ''http://src'' world0)"
  define w2 where "w2 = snd (fetchCharts ?e ''http://dst'' w1)"
  define diff where "diff = compareCharts (range_data1 ?e three_index) three_index Map.empty"
  have "fst (fetchCharts ?e ''http://src'' world0) = Inr three_index"
    by (simp add: fetchCharts_def readValue_def http_Get_def NewRequest_def client_Do_def
          answering_def serving_def document_def three_versions_decoded three_versions_depth
          world0_def Let_def)
  then have f1: "fetchCharts ?e ''http://src'' world0 = (Inr three_index, w1)"
    by (simp add: w1_def prod_eq_iff)
  have "fst (fetchCharts ?e ''http://dst'' w1) = Inr Map.empty"
    by (simp add: fetchCharts_def readValue_def http_Get_def NewRequest_def client_Do_def
          answering_def serving_def document_def empty_listing_def Let_def)
  then have f2: "fetchCharts ?e ''http://dst'' w1 = (Inr Map.empty, w2)"
    by (simp add: w2_def prod_eq_iff)
  have d: "diff = compareCharts (range_data1 ?e three_index) three_index Map.empty"
    by (simp add: diff_def)
  have diff: "diff = [''app'' \<mapsto> [''1.0.0'', ''1.1.0'', ''1.2.0'']]"
    by (simp add: diff_def answering_def three_index_def compareCharts_def collect_missing_def
          versionSet2_def append_entry_def)
  have r1: "range_order (range_total ?e diff) diff"
    by (simp add: answering_def range_order_app [OF diff])
  have r2: "range_order (range_transfer ?e diff) diff"
    by (simp add: answering_def range_order_app [OF diff])
  obtain s where run: "syncCharts ?e ''http://src'' ''http://dst'' world0 = Ran (Finished s)"
    and synced: "chartsSynced s = 2"
    and lines: "failures (sys s) = 1"
    by (simp add: run_defs failures_def)
  have c2: "completed (exchanges w2) = 0" "failures w2 = 0"
    by (simp_all add: w2_def w1_def run_defs failures_def fetch_then_upload_def)
  have t: "totalCharts (range_total ?e diff) diff = 3"
    by (simp add: diff answering_def totalCharts_def)
  from sync_counts [OF f1 f2 d r1 r2 run] synced lines t c2
  have "bar_max (bar s) = 3 \<and> bar_pos (bar s) = 2 \<and> completed (exchanges (sys s)) = 2"
    by simp
  moreover have "range_order [''app''] (compareCharts [''app''] three_index Map.empty)"
    using r1 by (simp add: diff_def answering_def)
  ultimately show ?thesis using run synced lines by simp
qed


text \<open>
  Claim C2, at an upload that fails at transport level. The source lists three
  versions of \<^verbatim>\<open>app\<close>, the destination none, and every upload is refused by the
  network. The run prints the failure of the first item and then panics at line
  104, where \<^verbatim>\<open>resp\<close> is nil: after four requests (two listings, one archive,
  one upload) nothing more is sent, the two other items are never tried.
\<close>

theorem upload_transport_error_panics:
  "\<exists>s. syncCharts (answering (serving empty_listing archives (Failure (NetError ''connection refused''))))
          ''http://src'' ''http://dst'' world0 = Ran (Panicked s) \<and>
       stdout (sys s) =
         [FailedToSync ''app'' ''1.0.0'' ''http://dst'' (Some (NetError ''connection refused''))] \<and>
       length (exchanges (sys s)) = 4"
  by (simp add: run_defs)

text \<open>
  Claim C3, at a destination whose listing answers 500 with the body \<^verbatim>\<open>{}\<close>.
  \<^verbatim>\<open>fetchCharts\<close> decodes the body without reading the status, the listing
  succeeds with an empty index, and the run uploads all three versions of the
  source.
\<close>

theorem listing_status_is_not_checked:
  "\<exists>s. syncCharts (answering (serving (Response 500 (document (JObject []) ''{}'')) archives created))
          ''http://src'' ''http://dst'' world0 = Ran (Finished s) \<and>
       chartsSynced s = 3 \<and>
       length (filter uploaded (exchanges (sys s))) = 3"
  by (simp add: run_defs uploaded_def)

text \<open>
  Claim C4, at an archive request answered 404. The fifth request of the run (the
  archive of version 1.1.0) is answered 404; the loop prints the failure and goes
  on at line 77 without closing the body of that response, which is still open
  when the run ends. Every other body of the run has been closed.
\<close>

theorem failed_fetch_leaves_body_open:
  "\<exists>s. syncCharts (answering (serving empty_listing archives_but_one created))
          ''http://src'' ''http://dst'' world0 = Ran (Finished s) \<and>
       open_bodies (sys s) = [4] \<and>
       exchanges (sys s) ! 4 =
         (\<lparr>Method = GET, URL = ''http://src/charts/app-1.1.0.tgz'', ContentType = None,
            Payload = None\<rparr>,
          Response 404 (raw ''not found''))"
  by (simp add: run_defs)


text \<open>
  One archive request among three is answered 404: the run prints the failure of
  that item and still fetches and uploads the two other items.
\<close>

theorem failed_fetch_skips_one_item:
  "\<exists>s. syncCharts (answering (serving empty_listing archives_but_one created))
          ''http://src'' ''http://dst'' world0 = Ran (Finished s) \<and>
       stdout (sys s) = [FailedToFetch ''app'' ''1.1.0'' ''http://src'' None] \<and>
       map (\<lambda>x. (Method (fst x), URL (fst x))) (exchanges (sys s)) =
         [(GET, ''http://src/api/charts''), (GET, ''http://dst/api/charts''),
          (GET, ''http://src/charts/app-1.0.0.tgz''), (POST, ''http://dst/api/charts''),
          (GET, ''http://src/charts/app-1.1.0.tgz''),
          (GET, ''http://src/charts/app-1.2.0.tgz''), (POST, ''http://dst/api/charts'')]"
  by (simp add: run_defs)

text \<open>
  A destination whose listing answers 500 with a body that is no JSON: the listing
  fails, the run prints both errors and sends no further request.
\<close>

theorem failed_listing_aborts:
  "\<exists>w. syncCharts (answering (serving (Response 500 (raw ''Internal Server Error'')) archives created))
          ''http://src'' ''http://dst'' world0 = Aborted w \<and>
       length (exchanges w) = 2 \<and> open_bodies w = [] \<and>
       stdout w =
         [ErrorFetchingCharts None
            (Some (SyntaxError ''invalid character looking for beginning of value''))]"
  by (simp add: run_defs)

text \<open>
  A server whose info document has no \<^verbatim>\<open>version\<close> key: the probe fails with the
  schema error and has closed the body.
\<close>

theorem probe_without_version_key:
  "checkInfoEndpoint
     (answering (\<lambda>r. Response 200 (document (JObject [(''name'', JString ''cm'')])
                                     (''{'' @ quoted ''name'' @ '':'' @ quoted ''cm'' @ ''}''))))
     ''http://src/info'' world0 =
   (Some MissingVersionKey,
    \<lparr>clock = 1,
     exchanges =
       [(\<lparr>Method = GET, URL = ''http://src/info'', ContentType = None, Payload = None\<rparr>,
         Response 200 (document (JObject [(''name'', JString ''cm'')])
                         (''{'' @ quoted ''name'' @ '':'' @ quoted ''cm'' @ ''}'')))],
     open_bodies = [], stdout = []\<rparr>)"
  by (simp add: checkInfoEndpoint_def readValue_def http_Get_def NewRequest_def client_Do_def
        Close_def answering_def document_def world0_def Let_def)


text \<open>
  The one way an item ends the run: when the loop body panics, the item's archive
  was fetched and its upload got no response at all; the failure line is printed
  before the panic. An upload answered by any response, whatever its status, lets
  the loop go on.
\<close>

theorem transfer_item_panics_only_without_response:
  assumes "transfer_item e server1 server2 chart version s = Panicked s'"
  shows "\<exists>g req er.
           exchanges (sys s') = exchanges (sys s) @ [g, (req, Failure er)] \<and>
           Method req = POST \<and>
           stdout (sys s') = stdout (sys s) @ [FailedToSync chart version server2 (Some er)]"
  using assms
  unfolding transfer_item_def http_Get_def NewRequest_def client_Do_def Let_def
    ReadAll_def Close_def Println_def
  by (auto split: option.splits reply.splits sum.splits if_splits prod.splits
        http_result.splits)

theorem transfer_item_panics_only_without_response_witness:
  "\<exists>s'. transfer_item (answering (serving empty_listing archives (Failure (NetError ''connection refused''))))
           ''http://src'' ''http://dst'' ''app'' ''1.0.0''
           \<lparr>sys = world0, chartsSynced = 0, bar = Default 1 []\<rparr> = Panicked s' \<and>
        stdout (sys s') =
          [FailedToSync ''app'' ''1.0.0'' ''http://dst'' (Some (NetError ''connection refused''))]"
proof -
  let ?e = "answering (serving empty_listing archives (Failure (NetError ''connection refused'')))"
  let ?s = "\<lparr>sys = world0, chartsSynced = 0, bar = Default 1 []\<rparr>"
  obtain s' where p: "transfer_item ?e ''http://src'' ''http://dst'' ''app'' ''1.0.0'' ?s = Panicked s'"
    by (simp add: run_defs)
  from transfer_item_panics_only_without_response [OF p]
  obtain er where
    "stdout (sys s') = stdout (sys ?s) @ [FailedToSync ''app'' ''1.0.0'' ''http://dst'' (Some er)]"
    and "\<exists>g req. exchanges (sys s') = exchanges (sys ?s) @ [g, (req, Failure er)]"
    by blast
  moreover from p have "exchanges (sys s') ! 1 =
      (\<lparr>Method = POST, URL = ''http://dst/api/charts'', ContentType = Some ''application/gzip'',
         Payload = Some ''tgz''\<rparr>, Failure (NetError ''connection refused''))"
    by (auto simp: run_defs)
  ultimately have "stdout (sys s') =
      [FailedToSync ''app'' ''1.0.0'' ''http://dst'' (Some (NetError ''connection refused''))]"
    by (auto simp: world0_def)
  with p show ?thesis by blast
qed

end
